theory Spec2Isabelle
  imports Main
begin

section \<open>Text, as Python's \<^verbatim>\<open>str\<close> sees it\<close>

text \<open>
  A Python string is a sequence of code points. The model covers the code points
  0..255 (Latin-1), one \<^typ>\<open>char\<close> each; the classes below are those of
  \<^verbatim>\<open>str.isspace\<close>, \<^verbatim>\<open>str.isdecimal\<close> and \<^verbatim>\<open>str.isdigit\<close> on that range.
  \<^verbatim>\<open>isdigit\<close> admits the superscripts U+00B2, U+00B3 and U+00B9, which
  \<^verbatim>\<open>isdecimal\<close>, the regular expression class \<^verbatim>\<open>\d\<close> and \<^verbatim>\<open>int()\<close> do not.
\<close>

datatype py_exception = ValueError | TypeError | AttributeError | HTTPException nat string

definition is_space :: "char \<Rightarrow> bool" where
  "is_space c \<longleftrightarrow> c \<in> set [CHR 0x09, CHR 0x0A, CHR 0x0B, CHR 0x0C, CHR 0x0D,
     CHR 0x1C, CHR 0x1D, CHR 0x1E, CHR 0x1F, CHR 0x20, CHR 0x85, CHR 0xA0]"

definition is_decimal :: "char \<Rightarrow> bool" where
  "is_decimal c \<longleftrightarrow> c \<in> set ''0123456789''"

definition is_digit :: "char \<Rightarrow> bool" where
  "is_digit c \<longleftrightarrow> is_decimal c \<or> c \<in> set [CHR 0xB2, CHR 0xB3, CHR 0xB9]"

definition digit_val :: "char \<Rightarrow> nat" where
  "digit_val c = of_char c - 48"

text \<open>\<^verbatim>\<open>s.isdigit()\<close>: at least one character, and every character a digit.\<close>

definition isdigit :: "string \<Rightarrow> bool" where
  "isdigit s \<longleftrightarrow> s \<noteq> [] \<and> list_all is_digit s"

text \<open>\<^verbatim>\<open>s.strip()\<close> and \<^verbatim>\<open>s.split()\<close> with no argument work on runs of white space.\<close>

definition py_strip :: "string \<Rightarrow> string" where
  "py_strip s = rev (dropWhile is_space (rev (dropWhile is_space s)))"

function py_split :: "string \<Rightarrow> string list" where
  "py_split s =
     (case dropWhile is_space s of
        [] \<Rightarrow> []
      | c # cs \<Rightarrow> takeWhile (\<lambda>x. \<not> is_space x) (c # cs)
                 # py_split (dropWhile (\<lambda>x. \<not> is_space x) (c # cs)))"
  by pat_completeness auto
termination
proof (relation "measure length")
  show "wf (measure length)" by simp
next
  fix s :: string and c cs
  assume a: "dropWhile is_space s = c # cs"
  have "length (dropWhile (\<lambda>x. \<not> is_space x) (c # cs)) < length (c # cs)"
    using a hd_dropWhile [of is_space s] by (simp add: le_imp_less_Suc length_dropWhile_le)
  also have "\<dots> \<le> length s"
    using length_dropWhile_le [of is_space s] by (simp add: a)
  finally show "(dropWhile (\<lambda>x. \<not> is_space x) (c # cs), s) \<in> measure length"
    by simp
qed

declare py_split.simps [simp del]

text \<open>\<^verbatim>\<open>sep.join(xs)\<close>.\<close>

fun join :: "string \<Rightarrow> string list \<Rightarrow> string" where
  "join sep [] = []"
| "join sep [x] = x"
| "join sep (x # y # ys) = x @ sep @ join sep (y # ys)"

text \<open>The value of a string of decimal digits, most significant digit first.\<close>

definition dec_value :: "string \<Rightarrow> int" where
  "dec_value s = foldl (\<lambda>acc c. 10 * acc + int (digit_val c)) 0 s"

text \<open>
  \<^verbatim>\<open>int(s)\<close> in base 10: blanks around the literal are ignored, one sign may lead, and
  single underscores may separate decimal digits. Anything else is a ValueError.
  (The interpreter's configurable cap on the length of a decimal literal is not part
  of the model.)
\<close>

fun int_body :: "bool \<Rightarrow> string \<Rightarrow> bool" where
  "int_body after_digit [] = after_digit"
| "int_body after_digit (c # cs) =
     (if is_decimal c then int_body True cs
      else if c = CHR ''_'' \<and> after_digit then int_body False cs
      else False)"

definition py_int :: "string \<Rightarrow> py_exception + int" where
  "py_int s =
     (let t = py_strip s;
          neg = (t \<noteq> [] \<and> hd t = CHR ''-'');
          body = (if t \<noteq> [] \<and> (hd t = CHR ''-'' \<or> hd t = CHR ''+'') then tl t else t)
      in if int_body False body
         then Inr ((if neg then - 1 else 1) * dec_value (filter (\<lambda>c. c \<noteq> CHR ''_'') body))
         else Inl ValueError)"


section \<open>The date label\<close>

text \<open>
  \<^verbatim>\<open>re.sub(r"(\d+)(st|nd|rd|th)", r"\1", s)\<close>. \<open>match_ordinal\<close> is one attempt to
  match the pattern at the head of the string: the longest run of decimal digits (a
  shorter run would be followed by a digit, never by a suffix), then one of the four
  suffixes. It gives the digits (group 1) and what follows the match. The substitution
  scans from the left, copies a character where no match starts, and resumes after a
  match.
\<close>

definition match_ordinal :: "string \<Rightarrow> (string \<times> string) option" where
  "match_ordinal s =
     (let ds = takeWhile is_decimal s; r = dropWhile is_decimal s
      in if ds \<noteq> [] \<and> take 2 r \<in> set [''st'', ''nd'', ''rd'', ''th'']
         then Some (ds, drop 2 r) else None)"

function re_sub_ordinal :: "string \<Rightarrow> string" where
  "re_sub_ordinal [] = []"
| "re_sub_ordinal (c # cs) =
     (case match_ordinal (c # cs) of
        Some (ds, r) \<Rightarrow> ds @ re_sub_ordinal r
      | None \<Rightarrow> c # re_sub_ordinal cs)"
  by pat_completeness auto
termination
proof (relation "measure length")
  show "wf (measure length)" by simp
next
  fix c :: char and cs x2 ds r
  assume "match_ordinal (c # cs) = Some x2" and "(ds, r) = x2"
  then have "r = drop 2 (dropWhile is_decimal (c # cs))"
    by (auto simp: match_ordinal_def Let_def split: if_splits)
  moreover have "length (dropWhile is_decimal (c # cs)) \<le> length (c # cs)"
    by (rule length_dropWhile_le)
  moreover have "length (dropWhile is_decimal (c # cs)) - 2 < length (c # cs)"
    using calculation(2) by simp
  ultimately show "(r, c # cs) \<in> measure length" by simp
next
  fix c :: char and cs
  show "(cs, c # cs) \<in> measure length" by simp
qed

text \<open>Calendar dates, ordered as Python's \<^verbatim>\<open>datetime.date\<close> orders them.\<close>

record pydate =
  year :: nat
  month :: nat
  day :: nat

definition date_less :: "pydate \<Rightarrow> pydate \<Rightarrow> bool" where
  "date_less a b \<longleftrightarrow>
     year a < year b \<or> (year a = year b \<and> (month a < month b \<or> (month a = month b \<and> day a < day b)))"

definition is_leap :: "nat \<Rightarrow> bool" where
  "is_leap y \<longleftrightarrow> y mod 4 = 0 \<and> (0 < y mod 100 \<or> y mod 400 = 0)"

definition days_in_month :: "nat \<Rightarrow> nat \<Rightarrow> nat" where
  "days_in_month y m =
     (if m = 2 then (if is_leap y then 29 else 28)
      else if m \<in> set [4, 6, 9, 11] then 30 else 31)"

text \<open>What the constructor \<^verbatim>\<open>date(y, m, d)\<close> accepts.\<close>

definition valid_date :: "pydate \<Rightarrow> bool" where
  "valid_date dt \<longleftrightarrow>
     1 \<le> year dt \<and> year dt \<le> 9999 \<and> 1 \<le> month dt \<and> month dt \<le> 12
     \<and> 1 \<le> day dt \<and> day dt \<le> days_in_month (year dt) (month dt)"

definition CUTOFF_DATE :: pydate where
  "CUTOFF_DATE = \<lparr>year = 2025, month = 1, day = 1\<rparr>"

text \<open>
  \<^verbatim>\<open>datetime.strptime(s, "%B %d %Y").date()\<close> in the C locale. The format compiles to
  the regular expression
  \<^verbatim>\<open>(?P<B>september|...|may)\s+(?P<d>3[0-1]|[1-2]\d|0[1-9]|[1-9]| [1-9])\s+(?P<Y>\d\d\d\d)\<close>,
  matched at the start of the string ignoring case; the match must then reach the end
  of the string, and the three groups must make a date. Every failure is a ValueError.

  No month name is the beginning of another, so at most one alternative of group B
  matches. \<^verbatim>\<open>\s+\<close> takes the whole run of blanks: giving one back only lets the
  alternative \<^verbatim>\<open>" [1-9]"\<close> of group d take the same digit that \<^verbatim>\<open>[1-9]\<close> has taken
  already, and the groups after a run never start with a blank.
\<close>

definition ascii_lower :: "char \<Rightarrow> char" where
  "ascii_lower c =
     (case map_of (zip ''ABCDEFGHIJKLMNOPQRSTUVWXYZ'' ''abcdefghijklmnopqrstuvwxyz'') c of
        Some l \<Rightarrow> l
      | None \<Rightarrow> c)"

definition month_alternatives :: "(string \<times> nat) list" where
  "month_alternatives =
     [(''september'', 9), (''february'', 2), (''november'', 11), (''december'', 12),
      (''january'', 1), (''october'', 10), (''august'', 8), (''march'', 3), (''april'', 4),
      (''june'', 6), (''july'', 7), (''may'', 5)]"

fun re_month :: "(string \<times> nat) list \<Rightarrow> string \<Rightarrow> (nat \<times> string) option" where
  "re_month [] s = None"
| "re_month ((name, k) # alts) s =
     (if map ascii_lower (take (length name) s) = name then Some (k, drop (length name) s)
      else re_month alts s)"

definition re_spaces :: "string \<Rightarrow> string option" where
  "re_spaces s = (if s \<noteq> [] \<and> is_space (hd s) then Some (dropWhile is_space s) else None)"

text \<open>The alternatives of group d that match at the head, in the pattern's order.\<close>

definition re_day :: "string \<Rightarrow> (nat \<times> string) list" where
  "re_day s =
     (case s of
        c1 # c2 # r \<Rightarrow>
          (if c1 = CHR ''3'' \<and> c2 \<in> set ''01'' then [(30 + digit_val c2, r)] else [])
          @ (if c1 \<in> set ''12'' \<and> is_decimal c2 then [(10 * digit_val c1 + digit_val c2, r)] else [])
          @ (if c1 = CHR ''0'' \<and> c2 \<in> set ''123456789'' then [(digit_val c2, r)] else [])
      | _ \<Rightarrow> [])
     @ (case s of
          c1 # r \<Rightarrow> (if c1 \<in> set ''123456789'' then [(digit_val c1, r)] else [])
        | [] \<Rightarrow> [])"

definition re_year :: "string \<Rightarrow> (nat \<times> string) option" where
  "re_year s =
     (if 4 \<le> length s \<and> list_all is_decimal (take 4 s)
      then Some (nat (dec_value (take 4 s)), drop 4 s) else None)"

text \<open>The rest of the pattern after group d: blanks, then the year.\<close>

definition re_tail :: "string \<Rightarrow> (nat \<times> string) option" where
  "re_tail s = (case re_spaces s of None \<Rightarrow> None | Some r \<Rightarrow> re_year r)"

fun re_day_tail :: "(nat \<times> string) list \<Rightarrow> (nat \<times> nat \<times> string) option" where
  "re_day_tail [] = None"
| "re_day_tail ((d, r) # alts) =
     (case re_tail r of Some (y, rest) \<Rightarrow> Some (d, y, rest) | None \<Rightarrow> re_day_tail alts)"

definition strptime_BdY :: "string \<Rightarrow> py_exception + pydate" where
  "strptime_BdY s =
     (case re_month month_alternatives s of
        None \<Rightarrow> Inl ValueError
      | Some (m, r1) \<Rightarrow>
          (case re_spaces r1 of
             None \<Rightarrow> Inl ValueError
           | Some r2 \<Rightarrow>
               (case re_day_tail (re_day r2) of
                  None \<Rightarrow> Inl ValueError
                | Some (d, y, rest) \<Rightarrow>
                    if rest \<noteq> [] then Inl ValueError
                    else if valid_date \<lparr>year = y, month = m, day = d\<rparr>
                    then Inr \<lparr>year = y, month = m, day = d\<rparr>
                    else Inl ValueError)))"

text \<open>
  Lines 99 to 111 of \<^verbatim>\<open>parse_draw_rows\<close>: from the anchor's text to the draw date.
  \<open>None\<close> is the \<^verbatim>\<open>continue\<close> of the loop (too few parts, or the ValueError that
  the \<^verbatim>\<open>except\<close> clause catches); any other exception would propagate.
\<close>

definition parse_date :: "string \<Rightarrow> py_exception + pydate option" where
  "parse_date raw_date =
     (let parts = py_split raw_date in
      if length parts < 3 then Inr None
      else
        let date_part = join '' '' (tl parts);
            date_part = re_sub_ordinal date_part
        in (case strptime_BdY date_part of
              Inl ValueError \<Rightarrow> Inr None
            | Inl e \<Rightarrow> Inl e
            | Inr draw_date \<Rightarrow> Inr (Some draw_date)))"


section \<open>The document tree\<close>

text \<open>
  \<^verbatim>\<open>BeautifulSoup(html, "html.parser")\<close> turns the markup into a tree; the model starts
  from that tree. \<open>Tag\<close> carries the tag's name, its attribute dictionary (with the
  values as written in the markup) and its children. \<open>Text\<close> is a string that
  \<^verbatim>\<open>get_text\<close> reads (NavigableString, CData); \<open>Special\<close> is a string it passes over
  (a comment, a declaration, the content of a script or style element).
\<close>

datatype node = Text string | Special string | Tag string "(string \<times> string) list" "node list"

text \<open>\<^verbatim>\<open>tag.descendants\<close>: everything below the node, in document order.\<close>

fun descendants :: "node \<Rightarrow> node list" where
  "descendants (Tag nm attrs cs) = concat (map (\<lambda>c. c # descendants c) cs)"
| "descendants (Text s) = []"
| "descendants (Special s) = []"

fun has_name :: "string \<Rightarrow> node \<Rightarrow> bool" where
  "has_name nm (Tag nm' attrs cs) = (nm' = nm)"
| "has_name nm (Text s) = False"
| "has_name nm (Special s) = False"

text \<open>\<^verbatim>\<open>tag.find_all(name)\<close> and \<^verbatim>\<open>tag.find(name)\<close>.\<close>

definition find_all :: "string \<Rightarrow> node \<Rightarrow> node list" where
  "find_all nm n = filter (has_name nm) (descendants n)"

definition find_tag :: "string \<Rightarrow> node \<Rightarrow> node option" where
  "find_tag nm n = (case find_all nm n of [] \<Rightarrow> None | x # xs \<Rightarrow> Some x)"

text \<open>
  \<^verbatim>\<open>tag.get_text(sep, strip=True)\<close>: the readable strings below the tag, each stripped,
  the empty ones dropped, joined by \<open>sep\<close>.
\<close>

fun node_text :: "node \<Rightarrow> string list" where
  "node_text (Text s) = [s]"
| "node_text (Special s) = []"
| "node_text (Tag nm attrs cs) = []"

definition get_text :: "string \<Rightarrow> node \<Rightarrow> string" where
  "get_text sep n =
     join sep (filter (\<lambda>s. s \<noteq> []) (map py_strip (concat (map node_text (descendants n)))))"

text \<open>
  \<^verbatim>\<open>re.compile(r"\bresultBall\b").search(s)\<close>. The class \<^verbatim>\<open>\w\<close> on the modelled code
  points is the letters, the digits (as \<^verbatim>\<open>isalnum\<close> sees them) and the underscore. The
  first argument of \<open>search_resultBall\<close> says whether the character before the head
  is a word character.
\<close>

definition is_word :: "char \<Rightarrow> bool" where
  "is_word c \<longleftrightarrow>
     (let n = (of_char c :: nat)
      in (48 \<le> n \<and> n \<le> 57) \<or> (65 \<le> n \<and> n \<le> 90) \<or> n = 95 \<or> (97 \<le> n \<and> n \<le> 122)
         \<or> n \<in> set [170, 178, 179, 181, 185, 186, 188, 189, 190]
         \<or> (192 \<le> n \<and> n \<le> 214) \<or> (216 \<le> n \<and> n \<le> 246) \<or> 248 \<le> n)"

fun search_resultBall :: "bool \<Rightarrow> string \<Rightarrow> bool" where
  "search_resultBall after_word [] = False"
| "search_resultBall after_word (c # cs) =
     ((\<not> after_word \<and> take 10 (c # cs) = ''resultBall''
        \<and> (case drop 10 (c # cs) of [] \<Rightarrow> True | d # ds \<Rightarrow> \<not> is_word d))
      \<or> search_resultBall (is_word c) cs)"

text \<open>
  The filter \<^verbatim>\<open>class_=re.compile(r"\bresultBall\b")\<close>: the class attribute is a list of
  blank-separated values; the tag passes when the pattern is found in one of them, or
  in the values joined by single spaces. A tag without the attribute does not pass.
\<close>

definition class_resultBall :: "node \<Rightarrow> bool" where
  "class_resultBall n =
     (case n of
        Tag nm attrs cs \<Rightarrow>
          (case map_of attrs ''class'' of
             None \<Rightarrow> False
           | Some v \<Rightarrow>
               list_ex (search_resultBall False) (py_split v)
               \<or> search_resultBall False (join '' '' (py_split v)))
      | _ \<Rightarrow> False)"

definition find_all_resultBall :: "node \<Rightarrow> node list" where
  "find_all_resultBall n = filter (\<lambda>x. has_name ''span'' x \<and> class_resultBall x) (descendants n)"


section \<open>The row parser\<close>

text \<open>\<^verbatim>\<open>d.isoformat()\<close>: \<^verbatim>\<open>"%04d-%02d-%02d"\<close>.\<close>

definition digit_char :: "nat \<Rightarrow> char" where
  "digit_char n = ''0123456789'' ! n"

fun show_nat :: "nat \<Rightarrow> string" where
  "show_nat n = (if n < 10 then [digit_char n] else show_nat (n div 10) @ [digit_char (n mod 10)])"

declare show_nat.simps [simp del]

definition zero_pad :: "nat \<Rightarrow> nat \<Rightarrow> string" where
  "zero_pad w n = replicate (w - length (show_nat n)) CHR ''0'' @ show_nat n"

definition isoformat :: "pydate \<Rightarrow> string" where
  "isoformat dt = zero_pad 4 (year dt) @ ''-'' @ zero_pad 2 (month dt) @ ''-'' @ zero_pad 2 (day dt)"

text \<open>
  Lines 120 to 124: the loop over the ball spans, with \<open>numbers\<close> as it stands so far.
  \<^verbatim>\<open>int(txt)\<close> runs whenever \<^verbatim>\<open>txt.isdigit()\<close> holds, and its exception is not caught.
\<close>

fun collect_numbers :: "node list \<Rightarrow> int list \<Rightarrow> py_exception + int list" where
  "collect_numbers [] numbers = Inr numbers"
| "collect_numbers (span # number_spans) numbers =
     (let txt = get_text [] span
      in if isdigit txt
         then (case py_int txt of
                 Inl e \<Rightarrow> Inl e
               | Inr v \<Rightarrow> collect_numbers number_spans (numbers @ [v]))
         else collect_numbers number_spans numbers)"

text \<open>Lines 134 to 139: from the text of the \<^verbatim>\<open>strong\<close> element to the amount.\<close>

definition parse_jackpot :: "string \<Rightarrow> py_exception + int option" where
  "parse_jackpot jackpot_text =
     (let jackpot_digits = filter (\<lambda>c. c \<noteq> CHR '','') (filter (\<lambda>c. c \<noteq> CHR ''$'') jackpot_text)
      in if \<not> isdigit jackpot_digits then Inr None
         else (case py_int jackpot_digits of
                 Inl e \<Rightarrow> Inl e
               | Inr jackpot_amount \<Rightarrow> Inr (Some jackpot_amount)))"

text \<open>The dictionary appended to \<^verbatim>\<open>results\<close> for a row.\<close>

record draw =
  date :: string
  numbers :: "int list"
  jackpot :: int

text \<open>
  The body of the loop over the rows, lines 86 to 146. \<open>Inr None\<close> is a
  \<^verbatim>\<open>continue\<close>, \<open>Inr (Some r)\<close> the record appended to \<open>results\<close>, \<open>Inl e\<close> an
  exception that leaves the function.
\<close>

definition parse_row :: "node \<Rightarrow> py_exception + draw option" where
  "parse_row tr =
     (let tds = find_all ''td'' tr in
      if length tds < 3 then Inr None
      else
        (case find_tag ''a'' (tds ! 0) of
           None \<Rightarrow> Inr None
         | Some a_tag \<Rightarrow>
             if get_text [] a_tag = [] then Inr None
             else
               (case parse_date (get_text '' '' a_tag) of
                  Inl e \<Rightarrow> Inl e
                | Inr None \<Rightarrow> Inr None
                | Inr (Some draw_date) \<Rightarrow>
                    if date_less draw_date CUTOFF_DATE then Inr None
                    else
                      (case collect_numbers (find_all_resultBall (tds ! 1)) [] of
                         Inl e \<Rightarrow> Inl e
                       | Inr nums \<Rightarrow>
                           if nums = [] then Inr None
                           else
                             (case find_tag ''strong'' (tds ! 2) of
                                None \<Rightarrow> Inr None
                              | Some strong \<Rightarrow>
                                  (case parse_jackpot (get_text [] strong) of
                                     Inl e \<Rightarrow> Inl e
                                   | Inr None \<Rightarrow> Inr None
                                   | Inr (Some jackpot_amount) \<Rightarrow>
                                       Inr (Some \<lparr>date = isoformat draw_date, numbers = nums,
                                                   jackpot = jackpot_amount\<rparr>)))))))"

fun parse_rows :: "node list \<Rightarrow> draw list \<Rightarrow> py_exception + draw list" where
  "parse_rows [] results = Inr results"
| "parse_rows (tr # trs) results =
     (case parse_row tr of
        Inl e \<Rightarrow> Inl e
      | Inr None \<Rightarrow> parse_rows trs results
      | Inr (Some r) \<Rightarrow> parse_rows trs (results @ [r]))"

definition parse_draw_rows :: "node \<Rightarrow> py_exception + draw list" where
  "parse_draw_rows soup = parse_rows (find_all ''tr'' soup) []"


section \<open>The snapshot and the query server\<close>

text \<open>What \<^verbatim>\<open>json.load\<close> returns. A float is carried by its literal.\<close>

datatype json =
  JNull | JBool bool | JInt int | JFloat string | JStr string
  | JArr "json list" | JObj "(string \<times> json) list"

definition draw_json :: "draw \<Rightarrow> json" where
  "draw_json r =
     JObj [(''date'', JStr (date r)), (''numbers'', JArr (map JInt (numbers r))),
           (''jackpot'', JInt (jackpot r))]"

text \<open>
  \<^verbatim>\<open>fetch_lottery_history\<close>, given what \<^verbatim>\<open>fetch_html\<close> returned for the URL: the page
  (as a tree), or \<open>None\<close> after a failed download.
\<close>

definition fetch_lottery_history :: "node option \<Rightarrow> py_exception + draw list" where
  "fetch_lottery_history html = (case html of None \<Rightarrow> Inr [] | Some page \<Rightarrow> parse_draw_rows page)"

text \<open>
  \<^verbatim>\<open>main\<close>, given the clock's reading (already in ISO format) and the outcome of the
  two downloads: the object written to \<^verbatim>\<open>history.json\<close>, with its keys in order.
  The object holds strings, integers and lists only, so \<^verbatim>\<open>json.load\<close> reads back what
  \<^verbatim>\<open>json.dump\<close> wrote. An exception of a parse leaves \<^verbatim>\<open>main\<close> before the file is
  written.
\<close>

definition main :: "string \<Rightarrow> node option \<Rightarrow> node option \<Rightarrow> py_exception + (string \<times> json) list" where
  "main now_iso powerball_page megamillions_page =
     (case fetch_lottery_history powerball_page of
        Inl e \<Rightarrow> Inl e
      | Inr powerball_history \<Rightarrow>
          (case fetch_lottery_history megamillions_page of
             Inl e \<Rightarrow> Inl e
           | Inr megamillions_history \<Rightarrow>
               Inr [(''timestamp'', JStr now_iso),
                    (''powerball'', JArr (map draw_json powerball_history)),
                    (''megaMillions'', JArr (map draw_json megamillions_history))]))"

text \<open>
  The list comprehension \<^verbatim>\<open>[e for e in entries if e.get("date") == date]\<close>. Iterating
  a list gives its elements, a dictionary its keys, a string its characters; a number,
  a boolean or null cannot be iterated (TypeError). Only a dictionary has \<^verbatim>\<open>get\<close>:
  an element of any other kind raises AttributeError.
\<close>

fun filter_by_date :: "string \<Rightarrow> json list \<Rightarrow> py_exception + json list" where
  "filter_by_date d [] = Inr []"
| "filter_by_date d (JObj e # es) =
     (case filter_by_date d es of
        Inl x \<Rightarrow> Inl x
      | Inr fs \<Rightarrow> Inr (if map_of e ''date'' = Some (JStr d) then JObj e # fs else fs))"
| "filter_by_date d (e # es) = Inl AttributeError"

definition iterate :: "json \<Rightarrow> py_exception + json list" where
  "iterate entries =
     (case entries of
        JArr es \<Rightarrow> Inr es
      | JObj kvs \<Rightarrow> Inr (map (\<lambda>kv. JStr (fst kv)) kvs)
      | JStr s \<Rightarrow> Inr (map (\<lambda>c. JStr [c]) s)
      | _ \<Rightarrow> Inl TypeError)"

text \<open>
  \<^verbatim>\<open>get_lottery\<close>, given the object that \<^verbatim>\<open>load_history()\<close> read from the file and the
  two optional query parameters. \<open>Inr\<close> is the returned value, \<open>Inl\<close> the raised
  exception. \<open>not_empty p\<close> is the truth value of an optional string: \<^verbatim>\<open>None\<close> and
  the empty string are false. Where \<open>the\<close> is applied the parameter is not \<^verbatim>\<open>None\<close>.
\<close>

definition not_empty :: "string option \<Rightarrow> bool" where
  "not_empty p = (case p of None \<Rightarrow> False | Some v \<Rightarrow> v \<noteq> [])"

definition get_lottery :: "(string \<times> json) list \<Rightarrow> string option \<Rightarrow> string option \<Rightarrow> py_exception + json" where
  "get_lottery history game date_param =
     (if \<not> not_empty game then Inr (JObj history)
      else
        let key = py_strip (the game) in
        (case map_of history key of
           None \<Rightarrow>
             Inl (HTTPException 404 (''Game '' @ [CHR 0x27] @ the game @ [CHR 0x27] @ '' not found''))
         | Some entries \<Rightarrow>
             if not_empty date_param
             then
               (case iterate entries of
                  Inl x \<Rightarrow> Inl x
                | Inr es \<Rightarrow>
                    (case filter_by_date (the date_param) es of
                       Inl x \<Rightarrow> Inl x
                     | Inr filtered \<Rightarrow>
                         if filtered = []
                         then Inl (HTTPException 404
                                 (''No '' @ key @ '' draws found on '' @ the date_param))
                         else Inr (JArr filtered)))
             else Inr entries))"


section \<open>Date labels, and pages for the concrete cases\<close>

text \<open>
  The label that a results page shows for the date \<open>y\<close>-\<open>m\<close>-\<open>d\<close>: a weekday, the
  month's English name, the day with an ordinal suffix, and the year in four digits.
\<close>

definition month_names :: "string list" where
  "month_names =
     [''January'', ''February'', ''March'', ''April'', ''May'', ''June'', ''July'',
      ''August'', ''September'', ''October'', ''November'', ''December'']"

definition date_label :: "string \<Rightarrow> nat \<Rightarrow> nat \<Rightarrow> string \<Rightarrow> nat \<Rightarrow> string" where
  "date_label weekday m d suffix y =
     weekday @ '' '' @ month_names ! (m - 1) @ '' '' @ show_nat d @ suffix @ '' '' @ zero_pad 4 y"

text \<open>
  A row as the docstring of \<^verbatim>\<open>parse_draw_rows\<close> describes it, given the content of its
  date cell, the texts of its ball spans and the text of its \<^verbatim>\<open>strong\<close> element; and a
  page with a header row before the given rows.
\<close>

definition anchor_tag :: "string \<Rightarrow> node" where
  "anchor_tag label = Tag ''a'' [(''href'', ''/powerball/results'')] [Text label]"

definition example_row :: "node list \<Rightarrow> string list \<Rightarrow> string \<Rightarrow> node" where
  "example_row date_cell balls jackpot_text =
     Tag ''tr'' []
       [Tag ''td'' [(''class'', ''centred'')] date_cell,
        Tag ''td'' [(''class'', ''centred'')]
          (map (\<lambda>b. Tag ''span'' [(''class'', ''resultBall ball'')] [Text b]) balls),
        Tag ''td'' [(''class'', ''centred nowrap'')]
          [Tag ''strong'' [] [Text jackpot_text], Text '' Jackpot'']]"

definition example_page :: "node list \<Rightarrow> node" where
  "example_page rows =
     Tag ''[document]'' [] [Tag ''table'' [] (Tag ''tr'' [] [Tag ''th'' [] [Text ''Date'']] # rows)]"

definition good_row :: node where
  "good_row =
     example_row [anchor_tag ''Friday May 30th 2025''] [''1'', ''22'', ''34'', ''56'', ''61'', ''18'']
       ''$189,000,000''"

definition good_draw :: draw where
  "good_draw = \<lparr>date = ''2025-05-30'', numbers = [1, 22, 34, 56, 61, 18], jackpot = 189000000\<rparr>"

definition early_row :: node where
  "early_row = example_row [anchor_tag ''Tuesday December 31st 2024''] [''2'', ''4''] ''$10,000,000''"

definition no_balls_row :: node where
  "no_balls_row = example_row [anchor_tag ''Saturday May 31st 2025''] [''x'', []] ''$10,000,000''"

definition plain_label_row :: node where
  "plain_label_row = example_row [Text ''Friday May 30th 2025''] [''1'', ''22''] ''$189,000,000''"

definition superscript_ball_row :: node where
  "superscript_ball_row =
     example_row [anchor_tag ''Saturday May 31st 2025''] [''7'', [CHR 0xB2]] ''$10,000,000''"

definition superscript_jackpot_row :: node where
  "superscript_jackpot_row =
     example_row [anchor_tag ''Saturday May 31st 2025''] [''7'', ''9''] [CHR ''$'', CHR 0xB2]"

text \<open>The records that one row adds to the result.\<close>

definition row_records :: "node \<Rightarrow> draw list" where
  "row_records tr = (case parse_row tr of Inr (Some r) \<Rightarrow> [r] | _ \<Rightarrow> [])"

text \<open>The test of the comprehension in \<^verbatim>\<open>get_lottery\<close>, on an object.\<close>

definition has_date :: "string \<Rightarrow> (string \<times> json) list \<Rightarrow> bool" where
  "has_date d e \<longleftrightarrow> map_of e ''date'' = Some (JStr d)"

text \<open>A snapshot as a run of the fetcher leaves it.\<close>

definition example_draw :: "(string \<times> json) list" where
  "example_draw =
     [(''date'', JStr ''2025-01-07''), (''numbers'', JArr [JInt 4, JInt 14, JInt 35, JInt 49, JInt 62, JInt 6]),
      (''jackpot'', JInt 20000000)]"

definition example_snapshot :: "(string \<times> json) list" where
  "example_snapshot =
     [(''timestamp'', JStr ''2025-06-03T14:00:00+00:00''), (''powerball'', JArr []),
      (''megaMillions'', JArr [JObj example_draw])]"


text \<open>The snapshot of a run in which the second download failed.\<close>

definition example_run_snapshot :: "(string \<times> json) list" where
  "example_run_snapshot =
     [(''timestamp'', JStr ''2025-06-03T14:00:00+00:00''),
      (''powerball'', JArr [draw_json good_draw]), (''megaMillions'', JArr [])]"


section \<open>Strings and numbers\<close>

lemma list_all_mem: "list_all P xs \<Longrightarrow> x \<in> set xs \<Longrightarrow> P x"
  by (simp add: list_all_iff)

lemma dropWhile_head: "s = [] \<or> \<not> P (hd s) \<Longrightarrow> dropWhile P s = s"
  by (cases s) auto

lemma py_strip_no_blank:
  assumes "s = [] \<or> (\<not> is_space (hd s) \<and> \<not> is_space (last s))"
  shows "py_strip s = s"
proof -
  have 1: "dropWhile is_space s = s"
    using assms by (intro dropWhile_head) auto
  have "rev s = [] \<or> \<not> is_space (hd (rev s))"
    using assms by (auto simp: hd_rev)
  then have 2: "dropWhile is_space (rev s) = rev s"
    by (rule dropWhile_head)
  show ?thesis by (simp add: py_strip_def 1 2)
qed

lemma py_strip_blanks:
  assumes "list_all is_space l" and "list_all is_space r"
    and "key \<noteq> []" and "\<not> is_space (hd key)" and "\<not> is_space (last key)"
  shows "py_strip (l @ key @ r) = key"
proof -
  have 1: "dropWhile is_space (l @ key @ r) = key @ r"
    using assms(1,3,4) by (cases key) (auto simp: dropWhile_append list_all_iff)
  have 2: "dropWhile is_space (rev r @ rev key) = rev key"
    using assms(2,3,5) by (cases key rule: rev_cases) (auto simp: dropWhile_append list_all_iff)
  show ?thesis by (simp add: py_strip_def 1 2)
qed

lemma digit_not_space: "is_digit c \<Longrightarrow> \<not> is_space c"
  by (auto simp: is_digit_def is_decimal_def is_space_def)

lemma digit_not_sign: "is_digit c \<Longrightarrow> c \<noteq> CHR ''-'' \<and> c \<noteq> CHR ''+'' \<and> c \<noteq> CHR ''_''"
  by (auto simp: is_digit_def is_decimal_def)

lemma int_body_digits:
  "list_all is_digit s \<Longrightarrow> int_body b s = (list_all is_decimal s \<and> (s \<noteq> [] \<or> b))"
  by (induction s arbitrary: b) (auto simp: digit_not_sign)

lemma filter_underscore_digits: "list_all is_digit s \<Longrightarrow> filter (\<lambda>c. c \<noteq> CHR ''_'') s = s"
  by (induction s) (auto simp: digit_not_sign)

lemma py_int_isdigit:
  assumes "isdigit s"
  shows "py_int s = (if list_all is_decimal s then Inr (dec_value s) else Inl ValueError)"
proof -
  from assms have ne: "s \<noteq> []" and all: "list_all is_digit s"
    by (auto simp: isdigit_def)
  then have "is_digit (hd s)" and "is_digit (last s)"
    by (auto simp: list_all_iff)
  then have strip: "py_strip s = s" and sign: "hd s \<noteq> CHR ''-''" "hd s \<noteq> CHR ''+''"
    using digit_not_space digit_not_sign by (auto intro: py_strip_no_blank)
  show ?thesis
    using ne sign by (simp add: py_int_def strip int_body_digits [OF all] filter_underscore_digits [OF all])
qed

lemma foldl_dec_nonneg: "0 \<le> a \<Longrightarrow> 0 \<le> foldl (\<lambda>acc c. 10 * acc + int (digit_val c)) a s"
  by (induction s arbitrary: a) auto

lemma dec_value_nonneg: "0 \<le> dec_value s"
  by (simp add: dec_value_def foldl_dec_nonneg)


lemma decimal_char: "n < 10 \<Longrightarrow> is_decimal (digit_char n) \<and> digit_val (digit_char n) = n"
proof -
  assume "n < 10"
  then have "n \<in> {0, 1, 2, 3, 4, 5, 6, 7, 8, 9}" by auto
  then show ?thesis
    by (auto simp: is_decimal_def digit_val_def digit_char_def)
qed

lemma decimal_not_space: "is_decimal c \<Longrightarrow> \<not> is_space c"
  by (auto simp: is_decimal_def is_space_def)

lemma show_nat_decimal: "list_all is_decimal (show_nat n)"
proof (induction n rule: show_nat.induct)
  case (1 n)
  show ?case
  proof (cases "n < 10")
    case True
    then show ?thesis by (subst show_nat.simps) (simp add: decimal_char)
  next
    case False
    then have "list_all is_decimal (show_nat (n div 10))" using 1 by simp
    moreover have "is_decimal (digit_char (n mod 10))" by (simp add: decimal_char)
    ultimately show ?thesis using False by (subst show_nat.simps) simp
  qed
qed

lemma show_nat_not_Nil: "show_nat n \<noteq> []"
  by (subst show_nat.simps) simp

lemma dec_value_snoc: "dec_value (s @ [c]) = 10 * dec_value s + int (digit_val c)"
  by (simp add: dec_value_def)

lemma dec_value_show_nat: "dec_value (show_nat n) = int n"
proof (induction n rule: show_nat.induct)
  case (1 n)
  show ?case
  proof (cases "n < 10")
    case True
    then show ?thesis by (subst show_nat.simps) (simp add: dec_value_def decimal_char)
  next
    case False
    then have "dec_value (show_nat (n div 10)) = int (n div 10)" using 1 by simp
    then show ?thesis using False
      by (subst show_nat.simps) (simp add: dec_value_snoc decimal_char zdiv_int zmod_int)
  qed
qed

lemma length_show_nat: "n < 10 ^ k \<Longrightarrow> 0 < k \<Longrightarrow> length (show_nat n) \<le> k"
proof (induction n arbitrary: k rule: show_nat.induct)
  case (1 n)
  show ?case
  proof (cases "n < 10")
    case True
    then show ?thesis using 1(3) by (subst show_nat.simps) simp
  next
    case False
    then obtain j where k: "k = Suc j" using 1(3) by (cases k) auto
    with False 1(2) have "0 < j" by (cases j) auto
    moreover have "n div 10 < 10 ^ j" using 1(2) k by (simp add: less_mult_imp_div_less)
    ultimately have "length (show_nat (n div 10)) \<le> j" using 1(1) False by simp
    then show ?thesis using False k by (subst show_nat.simps) simp
  qed
qed

lemma dec_value_zeros: "dec_value (replicate k CHR ''0'' @ s) = dec_value s"
  by (induction k) (simp_all add: dec_value_def digit_val_def)

lemma replicate_zero_decimal: "list_all is_decimal (replicate k CHR ''0'')"
  by (induction k) (simp_all add: is_decimal_def)

lemma zero_pad_4:
  assumes "y \<le> 9999"
  shows "length (zero_pad 4 y) = 4" and "list_all is_decimal (zero_pad 4 y)" and "dec_value (zero_pad 4 y) = int y"
proof -
  have "length (show_nat y) \<le> 4" using length_show_nat [of y 4] assms by simp
  then show "length (zero_pad 4 y) = 4" by (simp add: zero_pad_def)
  show "list_all is_decimal (zero_pad 4 y)"
    by (simp add: zero_pad_def show_nat_decimal replicate_zero_decimal)
  show "dec_value (zero_pad 4 y) = int y"
    by (simp add: zero_pad_def dec_value_zeros dec_value_show_nat)
qed

lemma py_split_blank: "is_space c \<Longrightarrow> py_split (c # s) = py_split s"
  by (subst py_split.simps, subst (2) py_split.simps) simp

lemma py_split_token:
  assumes "tok \<noteq> []" and "list_all (\<lambda>c. \<not> is_space c) tok"
  shows "py_split (tok @ CHR '' '' # rest) = tok # py_split rest"
    and "py_split tok = [tok]"
proof -
  obtain c cs where tok: "tok = c # cs" using assms(1) by (cases tok) auto
  have c: "\<not> is_space c" using assms(2) tok by simp
  have sp: "is_space CHR '' ''" by (simp add: is_space_def)
  have all: "\<And>x. x \<in> set tok \<Longrightarrow> \<not> is_space x" using assms(2) by (simp add: list_all_iff)
  have t: "takeWhile (\<lambda>x. \<not> is_space x) (tok @ CHR '' '' # rest) = tok"
    using all sp by (simp add: takeWhile_append2)
  have d: "dropWhile (\<lambda>x. \<not> is_space x) (tok @ CHR '' '' # rest) = CHR '' '' # rest"
    using all sp by (simp add: dropWhile_append2)
  have "py_split (tok @ CHR '' '' # rest) = tok # py_split (CHR '' '' # rest)"
    using c t d by (subst py_split.simps) (simp add: tok)
  then show "py_split (tok @ CHR '' '' # rest) = tok # py_split rest"
    by (simp add: py_split_blank sp)
  have t': "takeWhile (\<lambda>x. \<not> is_space x) tok = tok" and d': "dropWhile (\<lambda>x. \<not> is_space x) tok = []"
    using all by auto
  have e: "py_split [] = []" by (subst py_split.simps) simp
  have "py_split (c # cs)
      = takeWhile (\<lambda>x. \<not> is_space x) (c # cs) # py_split (dropWhile (\<lambda>x. \<not> is_space x) (c # cs))"
    using c by (subst py_split.simps) simp
  then have "py_split tok = takeWhile (\<lambda>x. \<not> is_space x) tok # py_split (dropWhile (\<lambda>x. \<not> is_space x) tok)"
    by (simp only: tok)
  then show "py_split tok = [tok]"
    by (simp only: t' d' e)
qed

lemma match_ordinal_no_digit: "\<not> is_decimal c \<Longrightarrow> match_ordinal (c # cs) = None"
  by (simp add: match_ordinal_def)

lemma re_sub_no_digits:
  "list_all (\<lambda>c. \<not> is_decimal c) xs \<Longrightarrow> re_sub_ordinal (xs @ rest) = xs @ re_sub_ordinal rest"
  by (induction xs) (simp_all add: match_ordinal_no_digit)

lemma re_sub_all_digits: "list_all is_decimal ds \<Longrightarrow> re_sub_ordinal ds = ds"
proof (induction ds)
  case Nil
  then show ?case by simp
next
  case (Cons c cs)
  then have "dropWhile is_decimal (c # cs) = []" by (simp add: list_all_iff)
  then have "match_ordinal (c # cs) = None" by (simp add: match_ordinal_def Let_def del: dropWhile.simps dropWhile_eq_Nil_conv)
  then show ?case using Cons by simp
qed

lemma suffix_head:
  assumes "suffix \<in> set [''st'', ''nd'', ''rd'', ''th'']"
  shows "takeWhile is_decimal (suffix @ rest) = []" and "dropWhile is_decimal (suffix @ rest) = suffix @ rest"
    and "take 2 (suffix @ rest) = suffix" and "drop 2 (suffix @ rest) = rest"
    and "list_all (\<lambda>c. \<not> is_space c) suffix"
  using assms by (auto simp: is_decimal_def is_space_def)

lemma match_ordinal_day:
  assumes "ds \<noteq> []" and "list_all is_decimal ds" and "suffix \<in> set [''st'', ''nd'', ''rd'', ''th'']"
  shows "match_ordinal (ds @ suffix @ rest) = Some (ds, rest)"
proof -
  have all: "\<And>x. x \<in> set ds \<Longrightarrow> is_decimal x" using assms(2) by (simp add: list_all_iff)
  have t: "takeWhile is_decimal (ds @ suffix @ rest) = ds"
    using all suffix_head(1) [OF assms(3)] by (simp add: takeWhile_append2)
  have d: "dropWhile is_decimal (ds @ suffix @ rest) = suffix @ rest"
    using all suffix_head(2) [OF assms(3)] by (simp add: dropWhile_append2)
  show ?thesis
    unfolding match_ordinal_def Let_def t d suffix_head(3,4) [OF assms(3)]
    using assms(1,3) by simp
qed

lemma re_sub_day:
  assumes "ds \<noteq> []" and "list_all is_decimal ds" and "suffix \<in> set [''st'', ''nd'', ''rd'', ''th'']"
  shows "re_sub_ordinal (ds @ suffix @ rest) = ds @ re_sub_ordinal rest"
proof -
  obtain c cs where ds: "ds = c # cs" using assms(1) by (cases ds) auto
  have "match_ordinal (c # cs @ suffix @ rest) = Some (ds, rest)"
    using match_ordinal_day [OF assms, of rest] by (simp add: ds)
  then show ?thesis by (simp add: ds)
qed


section \<open>Parsing a date label\<close>

lemma month_table:
  "list_all (\<lambda>m. re_month month_alternatives (month_names ! (m - 1) @ CHR '' '' # rest) = Some (m, CHR '' '' # rest)
      \<and> list_all (\<lambda>c. \<not> is_decimal c) (month_names ! (m - 1))
      \<and> list_all (\<lambda>c. \<not> is_space c) (month_names ! (m - 1))
      \<and> month_names ! (m - 1) \<noteq> []) [1, 2, 3, 4, 5, 6, 7, 8, 9, 10, 11, 12]"
  by (simp add: month_names_def month_alternatives_def ascii_lower_def is_decimal_def is_space_def)

lemma month_token:
  assumes "1 \<le> m" and "m \<le> 12"
  shows "re_month month_alternatives (month_names ! (m - 1) @ CHR '' '' # rest) = Some (m, CHR '' '' # rest)
      \<and> list_all (\<lambda>c. \<not> is_decimal c) (month_names ! (m - 1))
      \<and> list_all (\<lambda>c. \<not> is_space c) (month_names ! (m - 1))
      \<and> month_names ! (m - 1) \<noteq> []"
proof -
  from assms have "m \<in> set [1, 2, 3, 4, 5, 6, 7, 8, 9, 10, 11, 12]" by simp arith
  then show ?thesis by (rule list_all_mem [OF month_table])
qed

lemma re_tail_year:
  assumes "1 \<le> y" and "y \<le> 9999"
  shows "re_tail (CHR '' '' # zero_pad 4 y) = Some (y, [])"
proof -
  note z = zero_pad_4 [OF assms(2)]
  from z(1) obtain c cs where zc: "zero_pad 4 y = c # cs" by (cases "zero_pad 4 y") auto
  with z(2) have "\<not> is_space c" by (simp add: decimal_not_space)
  then have "re_spaces (CHR '' '' # zero_pad 4 y) = Some (zero_pad 4 y)"
    by (simp add: re_spaces_def is_space_def zc)
  moreover have "re_year (zero_pad 4 y) = Some (y, [])"
    using z by (simp add: re_year_def)
  ultimately show ?thesis by (simp add: re_tail_def)
qed

lemma day_token:
  assumes "1 \<le> d" and "d \<le> 31" and "re_tail (CHR '' '' # ys) = Some (y, [])"
  shows "re_day_tail (re_day (show_nat d @ CHR '' '' # ys)) = Some (d, y, [])"
proof -
  have "list_all (\<lambda>d. re_day_tail (re_day (show_nat d @ CHR '' '' # ys)) = Some (d, y, [])) 
    [1, 2, 3, 4, 5, 6, 7, 8, 9, 10, 11, 12, 13, 14, 15, 16, 17, 18, 19, 20,
      21, 22, 23, 24, 25, 26, 27, 28, 29, 30, 31]"
    using assms(3)
    by (simp add: show_nat.simps digit_char_def re_day_def is_decimal_def digit_val_def)
  moreover have "d \<in> set [1, 2, 3, 4, 5, 6, 7, 8, 9, 10, 11, 12, 13, 14, 15, 16, 17, 18, 19, 20,
      21, 22, 23, 24, 25, 26, 27, 28, 29, 30, 31]" using assms(1,2) by simp arith
  ultimately show ?thesis by (rule list_all_mem)
qed

lemma strptime_label:
  assumes "valid_date \<lparr>year = y, month = m, day = d\<rparr>"
  shows "strptime_BdY (month_names ! (m - 1) @ CHR '' '' # show_nat d @ CHR '' '' # zero_pad 4 y)
           = Inr \<lparr>year = y, month = m, day = d\<rparr>"
proof -
  from assms have y: "1 \<le> y" "y \<le> 9999" and m: "1 \<le> m" "m \<le> 12" and d: "1 \<le> d" "d \<le> 31"
    by (auto simp: valid_date_def days_in_month_def split: if_splits)
  obtain c cs where sd: "show_nat d = c # cs" using show_nat_not_Nil [of d] by (cases "show_nat d") auto
  have "is_decimal c" using show_nat_decimal [of d] by (simp add: sd)
  then have "\<not> is_space c" by (rule decimal_not_space)
  then have sp: "re_spaces (CHR '' '' # show_nat d @ CHR '' '' # zero_pad 4 y) = Some (show_nat d @ CHR '' '' # zero_pad 4 y)"
    by (simp add: re_spaces_def is_space_def sd)
  have mo: "re_month month_alternatives (month_names ! (m - 1) @ CHR '' '' # show_nat d @ CHR '' '' # zero_pad 4 y)
     = Some (m, CHR '' '' # show_nat d @ CHR '' '' # zero_pad 4 y)"
    using month_token [OF m] by blast
  have da: "re_day_tail (re_day (show_nat d @ CHR '' '' # zero_pad 4 y)) = Some (d, y, [])"
    by (rule day_token [OF d re_tail_year [OF y]])
  show ?thesis
    unfolding strptime_BdY_def mo by (simp add: sp da assms)
qed

lemma re_sub_label:
  assumes "1 \<le> m" and "m \<le> 12" and "suffix \<in> set [''st'', ''nd'', ''rd'', ''th'']" and "y \<le> 9999"
  shows "re_sub_ordinal (month_names ! (m - 1) @ '' '' @ (show_nat d @ suffix) @ '' '' @ zero_pad 4 y)
           = month_names ! (m - 1) @ CHR '' '' # show_nat d @ CHR '' '' # zero_pad 4 y"
proof -
  have nd: "list_all (\<lambda>c. \<not> is_decimal c) (month_names ! (m - 1) @ '' '')"
    using month_token [OF assms(1,2)] by (simp add: is_decimal_def)
  have 1: "re_sub_ordinal ((month_names ! (m - 1) @ '' '') @ show_nat d @ suffix @ '' '' @ zero_pad 4 y)
      = (month_names ! (m - 1) @ '' '') @ re_sub_ordinal (show_nat d @ suffix @ '' '' @ zero_pad 4 y)"
    by (rule re_sub_no_digits [OF nd])
  have 2: "re_sub_ordinal (show_nat d @ suffix @ '' '' @ zero_pad 4 y)
      = show_nat d @ re_sub_ordinal ('' '' @ zero_pad 4 y)"
    by (rule re_sub_day [OF show_nat_not_Nil show_nat_decimal assms(3)])
  have 3: "re_sub_ordinal ('' '' @ zero_pad 4 y) = '' '' @ re_sub_ordinal (zero_pad 4 y)"
    by (rule re_sub_no_digits) (simp add: is_decimal_def)
  have 4: "re_sub_ordinal (zero_pad 4 y) = zero_pad 4 y"
    by (rule re_sub_all_digits [OF zero_pad_4(2) [OF assms(4)]])
  have "re_sub_ordinal (month_names ! (m - 1) @ '' '' @ (show_nat d @ suffix) @ '' '' @ zero_pad 4 y)
      = re_sub_ordinal ((month_names ! (m - 1) @ '' '') @ show_nat d @ suffix @ '' '' @ zero_pad 4 y)"
    by simp
  also have "\<dots> = (month_names ! (m - 1) @ '' '') @ show_nat d @ '' '' @ zero_pad 4 y"
    by (simp only: 1 2 3 4)
  finally show ?thesis by simp
qed

lemma py_split_label:
  assumes "weekday \<noteq> []" and "list_all (\<lambda>c. \<not> is_space c) weekday"
    and "1 \<le> m" and "m \<le> 12" and "suffix \<in> set [''st'', ''nd'', ''rd'', ''th'']" and "y \<le> 9999"
  shows "py_split (date_label weekday m d suffix y)
           = [weekday, month_names ! (m - 1), show_nat d @ suffix, zero_pad 4 y]"
proof -
  note mt = month_token [OF assms(3,4)]
  have ds: "show_nat d @ suffix \<noteq> []" "list_all (\<lambda>c. \<not> is_space c) (show_nat d @ suffix)"
    using show_nat_not_Nil [of d] show_nat_decimal [of d] suffix_head(5) [OF assms(5)]
    by (auto simp: list_all_iff decimal_not_space)
  have ys: "zero_pad 4 y \<noteq> []" "list_all (\<lambda>c. \<not> is_space c) (zero_pad 4 y)"
    using zero_pad_4 [OF assms(6)] by (auto simp: list_all_iff decimal_not_space)
  have "date_label weekday m d suffix y
      = weekday @ CHR '' '' # (month_names ! (m - 1) @ CHR '' '' # ((show_nat d @ suffix) @ CHR '' '' # zero_pad 4 y))"
    by (simp add: date_label_def)
  then show ?thesis
    using py_split_token(1) [OF assms(1,2)] py_split_token(1) [of "month_names ! (m - 1)"] mt
      py_split_token(1) [OF ds] py_split_token(2) [OF ys]
    by simp
qed



section \<open>The steps of a row\<close>

lemma parse_jackpot_cases:
  "parse_jackpot t =
     (let ds = filter (\<lambda>c. c \<noteq> CHR '','') (filter (\<lambda>c. c \<noteq> CHR ''$'') t)
      in if \<not> isdigit ds then Inr None
         else if list_all is_decimal ds then Inr (Some (dec_value ds))
         else Inl ValueError)"
  by (simp add: parse_jackpot_def Let_def py_int_isdigit)

lemma parse_jackpot_nonneg: "parse_jackpot t = Inr (Some j) \<Longrightarrow> 0 \<le> j"
  by (auto simp: parse_jackpot_cases Let_def dec_value_nonneg split: if_splits)

lemma jackpot_examples:
  "parse_jackpot ''$189,000,000'' = Inr (Some 189000000)"
  "parse_jackpot ''$1,000,00X'' = Inr None"
  "parse_jackpot ''$'' = Inr None"
  by code_simp+

lemma strptime_valid: "strptime_BdY s = Inr dt \<Longrightarrow> valid_date dt"
  by (auto simp: strptime_BdY_def split: option.splits if_splits)

lemma parse_date_valid: "parse_date s = Inr (Some dt) \<Longrightarrow> valid_date dt"
  by (auto simp: parse_date_def Let_def strptime_valid split: if_splits sum.splits py_exception.splits)

lemma parse_row_Some:
  assumes "parse_row tr = Inr (Some r)"
  shows "\<exists>a_tag draw_date strong.
           3 \<le> length (find_all ''td'' tr)
           \<and> find_tag ''a'' (find_all ''td'' tr ! 0) = Some a_tag \<and> get_text [] a_tag \<noteq> []
           \<and> parse_date (get_text '' '' a_tag) = Inr (Some draw_date)
           \<and> \<not> date_less draw_date CUTOFF_DATE
           \<and> collect_numbers (find_all_resultBall (find_all ''td'' tr ! 1)) [] = Inr (numbers r)
           \<and> numbers r \<noteq> []
           \<and> find_tag ''strong'' (find_all ''td'' tr ! 2) = Some strong
           \<and> parse_jackpot (get_text [] strong) = Inr (Some (jackpot r))
           \<and> date r = isoformat draw_date"
  using assms
  by (auto simp: parse_row_def Let_def split: if_splits option.splits sum.splits)

lemma parse_rows_Inr:
  "parse_rows trs acc = Inr rs \<Longrightarrow>
     \<exists>new. rs = acc @ new \<and> (\<forall>r\<in>set new. \<exists>tr\<in>set trs. parse_row tr = Inr (Some r))"
proof (induction trs arbitrary: acc)
  case Nil
  then show ?case by simp
next
  case (Cons tr trs)
  show ?case
  proof (cases "parse_row tr")
    case (Inl e)
    with Cons.prems show ?thesis by simp
  next
    case (Inr x)
    show ?thesis
    proof (cases x)
      case None
      with Inr Cons.prems have "parse_rows trs acc = Inr rs" by simp
      from Cons.IH [OF this] show ?thesis by auto
    next
      case (Some r0)
      with Inr Cons.prems have "parse_rows trs (acc @ [r0]) = Inr rs" by simp
      from Cons.IH [OF this] obtain new where
        "rs = (acc @ [r0]) @ new" and "\<forall>r\<in>set new. \<exists>tr\<in>set trs. parse_row tr = Inr (Some r)"
        by blast
      then have "rs = acc @ (r0 # new) \<and> (\<forall>r\<in>set (r0 # new). \<exists>t\<in>set (tr # trs). parse_row t = Inr (Some r))"
        using Inr Some by auto
      then show ?thesis by blast
    qed
  qed
qed

lemma parse_draw_rows_row:
  assumes "parse_draw_rows soup = Inr results" and "r \<in> set results"
  shows "\<exists>tr\<in>set (find_all ''tr'' soup). parse_row tr = Inr (Some r)"
  using parse_rows_Inr [of "find_all ''tr'' soup" "[]" results] assms
  by (auto simp: parse_draw_rows_def)

lemma parse_rows_no_exception:
  "list_all (\<lambda>tr. \<not> isl (parse_row tr)) trs \<Longrightarrow>
     parse_rows trs acc = Inr (acc @ concat (map row_records trs))"
proof (induction trs arbitrary: acc)
  case Nil
  then show ?case by simp
next
  case (Cons tr trs)
  then show ?case
    by (cases "parse_row tr") (auto simp: row_records_def split: option.splits)
qed

lemma collect_numbers_error: "collect_numbers spans acc = Inl e \<Longrightarrow> e = ValueError"
  by (induction spans arbitrary: acc) (auto simp: Let_def py_int_isdigit split: if_splits sum.splits)

lemma strptime_error: "strptime_BdY s = Inl e \<Longrightarrow> e = ValueError"
  by (auto simp: strptime_BdY_def split: option.splits if_splits)

lemma parse_date_no_error: "parse_date s \<noteq> Inl e"
  by (auto simp: parse_date_def Let_def dest: strptime_error split: sum.splits py_exception.splits)

lemma parse_jackpot_error: "parse_jackpot t = Inl e \<Longrightarrow> e = ValueError"
  by (auto simp: parse_jackpot_cases Let_def split: if_splits)

lemma parse_row_error: "parse_row tr = Inl e \<Longrightarrow> e = ValueError"
  by (auto simp: parse_row_def Let_def parse_date_no_error
      dest: collect_numbers_error parse_jackpot_error split: if_splits option.splits sum.splits)

section \<open>Properties of the row parser\<close>

text \<open>
  Claim C1. A label made of a weekday token, a month's English name, a day with one of
  the suffixes st, nd, rd, th and a four-digit year, for a date that exists, is parsed
  to that date: the weekday is dropped, the suffix removed, and the rest read as month,
  day and year. So a row whose anchor text is the label, if it yields a record, yields
  one with that date in ISO format.
\<close>

theorem label_date:
  assumes "weekday \<noteq> []" and "list_all (\<lambda>c. \<not> is_space c) weekday"
    and "suffix \<in> set [''st'', ''nd'', ''rd'', ''th'']"
    and "valid_date \<lparr>year = y, month = m, day = d\<rparr>"
  shows "parse_date (date_label weekday m d suffix y) = Inr (Some \<lparr>year = y, month = m, day = d\<rparr>)
    \<and> (find_tag ''a'' (find_all ''td'' tr ! 0) = Some a_tag
         \<and> get_text '' '' a_tag = date_label weekday m d suffix y
         \<and> parse_row tr = Inr (Some r)
        \<longrightarrow> date r = isoformat \<lparr>year = y, month = m, day = d\<rparr>)"
proof -
  from assms(4) have y: "y \<le> 9999" and m: "1 \<le> m" "m \<le> 12"
    by (auto simp: valid_date_def)
  have sp: "py_split (date_label weekday m d suffix y)
           = [weekday, month_names ! (m - 1), show_nat d @ suffix, zero_pad 4 y]"
    by (rule py_split_label [OF assms(1,2) m assms(3) y])
  have jn: "join '' '' (tl [weekday, month_names ! (m - 1), show_nat d @ suffix, zero_pad 4 y])
      = month_names ! (m - 1) @ '' '' @ (show_nat d @ suffix) @ '' '' @ zero_pad 4 y"
    by simp
  have pd: "parse_date (date_label weekday m d suffix y) = Inr (Some \<lparr>year = y, month = m, day = d\<rparr>)"
    unfolding parse_date_def sp Let_def jn re_sub_label [OF m assms(3) y] strptime_label [OF assms(4)]
    by simp
  have "date r = isoformat \<lparr>year = y, month = m, day = d\<rparr>"
    if a: "find_tag ''a'' (find_all ''td'' tr ! 0) = Some a_tag"
      and t: "get_text '' '' a_tag = date_label weekday m d suffix y"
      and r: "parse_row tr = Inr (Some r)"
  proof -
    from parse_row_Some [OF r] obtain a' draw_date where
      "find_tag ''a'' (find_all ''td'' tr ! 0) = Some a'"
      and "parse_date (get_text '' '' a') = Inr (Some draw_date)"
      and "date r = isoformat draw_date"
      by blast
    with a t pd show ?thesis by simp
  qed
  with pd show ?thesis by blast
qed

lemma good_row_parsed: "parse_row good_row = Inr (Some good_draw)"
  by code_simp

lemma good_row_anchor:
  "find_tag ''a'' (find_all ''td'' good_row ! 0) = Some (anchor_tag ''Friday May 30th 2025'')"
  "get_text '' '' (anchor_tag ''Friday May 30th 2025'') = ''Friday May 30th 2025''"
  by code_simp+

lemma good_label: "date_label ''Friday'' 5 30 ''th'' 2025 = ''Friday May 30th 2025''"
  by (simp add: date_label_def month_names_def show_nat.simps zero_pad_def digit_char_def)

theorem label_date_witness:
  "parse_date ''Friday May 30th 2025'' = Inr (Some \<lparr>year = 2025, month = 5, day = 30\<rparr>)
   \<and> parse_row good_row = Inr (Some good_draw) \<and> date good_draw = ''2025-05-30''"
proof -
  have v: "valid_date \<lparr>year = 2025, month = 5, day = 30\<rparr>"
    by (simp add: valid_date_def days_in_month_def)
  have w: "list_all (\<lambda>c. \<not> is_space c) ''Friday''"
    by (simp add: is_space_def)
  show ?thesis
    using label_date [of "''Friday''" "''th''" 2025 5 30 good_row "anchor_tag ''Friday May 30th 2025''" good_draw]
      v w good_row_parsed good_row_anchor
    by (simp add: good_label good_draw_def)
qed

text \<open>
  Claim C2. Every record of the result has at least one number, a jackpot that is not
  negative, and the ISO form of a calendar date that is not before the cutoff. A row
  whose label parses to a date before the cutoff gives no record, and neither does a
  row whose ball spans give no number, whatever the rest of the row holds.
\<close>

theorem output_records_satisfy_invariant:
  "(parse_draw_rows soup = Inr results \<and> r \<in> set results \<longrightarrow>
      numbers r \<noteq> [] \<and> 0 \<le> jackpot r
      \<and> (\<exists>dt. valid_date dt \<and> \<not> date_less dt CUTOFF_DATE \<and> date r = isoformat dt))
   \<and> (find_tag ''a'' (find_all ''td'' tr ! 0) = Some a_tag
        \<and> parse_date (get_text '' '' a_tag) = Inr (Some dt') \<and> date_less dt' CUTOFF_DATE
       \<longrightarrow> parse_row tr = Inr None)
   \<and> (collect_numbers (find_all_resultBall (find_all ''td'' tr ! 1)) [] = Inr []
       \<longrightarrow> parse_row tr = Inr None)"
proof -
  have 1: "numbers r \<noteq> [] \<and> 0 \<le> jackpot r
      \<and> (\<exists>dt. valid_date dt \<and> \<not> date_less dt CUTOFF_DATE \<and> date r = isoformat dt)"
    if "parse_draw_rows soup = Inr results" and "r \<in> set results"
  proof -
    from parse_draw_rows_row [OF that] obtain row where "parse_row row = Inr (Some r)" by blast
    from parse_row_Some [OF this] show ?thesis
      using parse_date_valid parse_jackpot_nonneg by blast
  qed
  have 2: "parse_row tr = Inr None"
    if "find_tag ''a'' (find_all ''td'' tr ! 0) = Some a_tag"
      and "parse_date (get_text '' '' a_tag) = Inr (Some dt')" and "date_less dt' CUTOFF_DATE"
    using that by (simp add: parse_row_def Let_def)
  have 3: "parse_row tr = Inr None"
    if "collect_numbers (find_all_resultBall (find_all ''td'' tr ! 1)) [] = Inr []"
    using that parse_date_no_error
    by (auto simp: parse_row_def Let_def split: option.splits sum.splits)
  from 1 2 3 show ?thesis by blast
qed

lemma example_page_parsed:
  "parse_draw_rows (example_page [good_row, early_row, no_balls_row]) = Inr [good_draw]"
  by code_simp

lemma early_row_date:
  "find_tag ''a'' (find_all ''td'' early_row ! 0) = Some (anchor_tag ''Tuesday December 31st 2024'')"
  "parse_date (get_text '' '' (anchor_tag ''Tuesday December 31st 2024''))
     = Inr (Some \<lparr>year = 2024, month = 12, day = 31\<rparr>)"
  by code_simp+

lemma no_balls_row_numbers:
  "collect_numbers (find_all_resultBall (find_all ''td'' no_balls_row ! 1)) [] = Inr []"
  by code_simp

theorem output_records_satisfy_invariant_witness:
  "parse_draw_rows (example_page [good_row, early_row, no_balls_row]) = Inr [good_draw]
   \<and> numbers good_draw \<noteq> [] \<and> 0 \<le> jackpot good_draw
   \<and> (\<exists>dt. valid_date dt \<and> \<not> date_less dt CUTOFF_DATE \<and> date good_draw = isoformat dt)
   \<and> parse_row early_row = Inr None \<and> parse_row no_balls_row = Inr None"
proof -
  have lt: "date_less \<lparr>year = 2024, month = 12, day = 31\<rparr> CUTOFF_DATE"
    by (simp add: date_less_def CUTOFF_DATE_def)
  show ?thesis
    using output_records_satisfy_invariant [of "example_page [good_row, early_row, no_balls_row]"
        "[good_draw]" good_draw early_row "anchor_tag ''Tuesday December 31st 2024''"
        "\<lparr>year = 2024, month = 12, day = 31\<rparr>"]
      output_records_satisfy_invariant [of "example_page [good_row, early_row, no_balls_row]"
        "[good_draw]" good_draw no_balls_row]
      example_page_parsed early_row_date no_balls_row_numbers lt
    by simp
qed

text \<open>
  How the jackpot text is read, when nothing is raised: dollar signs and commas are
  removed, and what remains must pass \<^verbatim>\<open>isdigit\<close>. The examples of the specification
  behave as it says.
\<close>

lemma jackpot_of_decimal_text:
  assumes "ds = filter (\<lambda>c. c \<noteq> CHR '','') (filter (\<lambda>c. c \<noteq> CHR ''$'') t)"
  shows "\<not> isdigit ds \<Longrightarrow> parse_jackpot t = Inr None"
    and "ds \<noteq> [] \<Longrightarrow> list_all is_decimal ds \<Longrightarrow> parse_jackpot t = Inr (Some (dec_value ds))"
  using assms by (auto simp: parse_jackpot_cases Let_def isdigit_def is_digit_def list_all_iff)

text \<open>
  Claim C4 says that a remainder with a character that is not a digit drops the row, and
  that any other remainder is parsed as the jackpot. The code tests the remainder with
  \<^verbatim>\<open>isdigit\<close> and then calls \<^verbatim>\<open>int\<close>; the superscript two passes the first and is
  refused by the second. For the jackpot text made of a dollar sign and a superscript
  two the row is not dropped and no amount is produced: ValueError leaves
  \<^verbatim>\<open>parse_draw_rows\<close>, and the record of the other row is lost with it.
\<close>

theorem superscript_jackpot_raises:
  "parse_jackpot [CHR ''$'', CHR 0xB2] = Inl ValueError
   \<and> parse_draw_rows (example_page [good_row, superscript_jackpot_row]) = Inl ValueError"
  by code_simp

text \<open>
  When no row raises, the result is made of the records of the rows, in order, and
  the only exception that a row can raise is the ValueError of \<^verbatim>\<open>int\<close>
  (\<open>parse_row_error\<close>).
\<close>

lemma parse_draw_rows_no_exception:
  "list_all (\<lambda>tr. \<not> isl (parse_row tr)) (find_all ''tr'' soup) \<Longrightarrow>
     parse_draw_rows soup = Inr (concat (map row_records (find_all ''tr'' soup)))"
  using parse_rows_no_exception [of "find_all ''tr'' soup" "[]"] by (simp add: parse_draw_rows_def)

text \<open>
  Claim C5 says that the parse is total and that an anomaly in a row, such as a ball
  that is not a number, costs that row only. It does not hold for a ball span whose
  text is a superscript two: the text passes \<^verbatim>\<open>isdigit\<close>, \<^verbatim>\<open>int\<close> raises, and the
  parse of the whole page ends without a result. The page with the good row alone gives
  its record; the page with the good row and such a row gives none.
\<close>

theorem superscript_ball_aborts_parse:
  "parse_draw_rows (example_page [good_row]) = Inr [good_draw]
   \<and> parse_draw_rows (example_page [good_row, superscript_ball_row]) = Inl ValueError"
  by code_simp

text \<open>
  Claim C10. A record of the result comes from a row whose first cell holds an anchor
  with text that is not blank. A row whose first cell holds no anchor gives no record,
  also when the cell shows a well-formed label as plain text.
\<close>

theorem record_needs_anchor:
  "(parse_draw_rows soup = Inr results \<and> r \<in> set results \<longrightarrow>
      (\<exists>tr\<in>set (find_all ''tr'' soup). \<exists>a_tag.
          parse_row tr = Inr (Some r)
          \<and> find_tag ''a'' (find_all ''td'' tr ! 0) = Some a_tag \<and> get_text [] a_tag \<noteq> []))
   \<and> (find_tag ''a'' (find_all ''td'' row ! 0) = None \<longrightarrow> parse_row row = Inr None)"
proof -
  have 1: "\<exists>tr\<in>set (find_all ''tr'' soup). \<exists>a_tag.
          parse_row tr = Inr (Some r)
          \<and> find_tag ''a'' (find_all ''td'' tr ! 0) = Some a_tag \<and> get_text [] a_tag \<noteq> []"
    if "parse_draw_rows soup = Inr results" and "r \<in> set results"
  proof -
    from parse_draw_rows_row [OF that] obtain tr where
      tr: "tr \<in> set (find_all ''tr'' soup)" "parse_row tr = Inr (Some r)" by blast
    from parse_row_Some [OF tr(2)] tr show ?thesis by blast
  qed
  have 2: "parse_row row = Inr None" if "find_tag ''a'' (find_all ''td'' row ! 0) = None"
    using that by (simp add: parse_row_def Let_def)
  from 1 2 show ?thesis by blast
qed

lemma plain_label_row_anchor: "find_tag ''a'' (find_all ''td'' plain_label_row ! 0) = None"
  by code_simp

lemma plain_label_row_text:
  "get_text '' '' (find_all ''td'' plain_label_row ! 0) = ''Friday May 30th 2025''"
  by code_simp

lemma good_page_parsed: "parse_draw_rows (example_page [good_row]) = Inr [good_draw]"
  by code_simp

theorem record_needs_anchor_witness:
  "parse_draw_rows (example_page [good_row]) = Inr [good_draw]
   \<and> (\<exists>tr\<in>set (find_all ''tr'' (example_page [good_row])). \<exists>a_tag.
          parse_row tr = Inr (Some good_draw)
          \<and> find_tag ''a'' (find_all ''td'' tr ! 0) = Some a_tag \<and> get_text [] a_tag \<noteq> [])
   \<and> get_text '' '' (find_all ''td'' plain_label_row ! 0) = ''Friday May 30th 2025''
   \<and> find_tag ''a'' (find_all ''td'' plain_label_row ! 0) = None
   \<and> parse_row plain_label_row = Inr None"
  using record_needs_anchor [of "example_page [good_row]" "[good_draw]" good_draw plain_label_row]
    good_page_parsed plain_label_row_anchor plain_label_row_text
  by simp


section \<open>Properties of the query server\<close>

text \<open>On an array of objects the comprehension is a filter.\<close>

lemma filter_by_date_objects:
  "filter_by_date d (map JObj es) = Inr (map JObj (filter (has_date d) es))"
  by (induction es) (simp_all add: has_date_def)

text \<open>
  Claim C3, as stated, fails: a request can carry a game parameter that is the empty
  string. The empty string is not a key of the example snapshot, and yet the response
  is the whole snapshot, not a 404.
\<close>

theorem empty_game_is_not_a_404:
  "map_of example_snapshot [] = None
   \<and> get_lottery example_snapshot (Some []) None = Inr (JObj example_snapshot)"
  by (simp add: example_snapshot_def get_lottery_def not_empty_def)

text \<open>
  Claim C3, amended. For a request whose game parameter is not empty, with the key
  being the parameter stripped of the blanks around it: when the key is absent from
  the snapshot, the response is a 404 whose message quotes the parameter as given; when
  the key is present and the date parameter is absent or empty, the value stored under
  the key is returned; when the key holds an array of objects and a date is given, the
  entries whose \<open>date\<close> field is that string are returned, or, when there are none,
  a 404 naming the key and the date.
\<close>

theorem lottery_by_game_and_date:
  assumes "game \<noteq> []"
  shows "(map_of history (py_strip game) = None \<longrightarrow>
            get_lottery history (Some game) date_param
              = Inl (HTTPException 404 (''Game '' @ [CHR 0x27] @ game @ [CHR 0x27] @ '' not found'')))
       \<and> (map_of history (py_strip game) = Some entries \<and> \<not> not_empty date_param \<longrightarrow>
            get_lottery history (Some game) date_param = Inr entries)
       \<and> (map_of history (py_strip game) = Some (JArr (map JObj es)) \<and> d \<noteq> [] \<longrightarrow>
            get_lottery history (Some game) (Some d)
              = (if filter (has_date d) es = []
                 then Inl (HTTPException 404 (''No '' @ py_strip game @ '' draws found on '' @ d))
                 else Inr (JArr (map JObj (filter (has_date d) es)))))"
  using assms
  by (simp add: get_lottery_def not_empty_def Let_def iterate_def filter_by_date_objects)

theorem lottery_by_game_and_date_witness:
  "get_lottery example_snapshot (Some ''unknownGame'') None
     = Inl (HTTPException 404 (''Game '' @ [CHR 0x27] @ ''unknownGame'' @ [CHR 0x27] @ '' not found''))
   \<and> get_lottery example_snapshot (Some ''megaMillions'') None = Inr (JArr [JObj example_draw])
   \<and> get_lottery example_snapshot (Some ''megaMillions'') (Some ''2025-01-07'')
       = Inr (JArr [JObj example_draw])
   \<and> get_lottery example_snapshot (Some ''megaMillions'') (Some ''2099-01-01'')
       = Inl (HTTPException 404 ''No megaMillions draws found on 2099-01-01'')"
proof -
  have s1: "py_strip ''unknownGame'' = ''unknownGame''"
    and s2: "py_strip ''megaMillions'' = ''megaMillions''"
    by (rule py_strip_no_blank, simp add: is_space_def)+
  show ?thesis
    using lottery_by_game_and_date [of "''unknownGame''" example_snapshot None undefined "[]" "[]"]
      lottery_by_game_and_date [of "''megaMillions''" example_snapshot None "JArr [JObj example_draw]"
        "[example_draw]" "''2025-01-07''"]
      lottery_by_game_and_date [of "''megaMillions''" example_snapshot None "JArr [JObj example_draw]"
        "[example_draw]" "''2099-01-01''"]
    by (simp add: s1 s2 example_snapshot_def example_draw_def not_empty_def has_date_def)
qed

text \<open>
  Outside the amended claim: a key whose value is not an array of objects. The
  \<open>timestamp\<close> of a snapshot is a string, and filtering it by date raises.
\<close>

lemma timestamp_by_date_raises:
  "get_lottery example_snapshot (Some ''timestamp'') (Some ''2025-06-03'') = Inl AttributeError"
proof -
  have "py_strip ''timestamp'' = ''timestamp''"
    by (rule py_strip_no_blank) (simp add: is_space_def)
  then show ?thesis
    by (simp add: get_lottery_def not_empty_def Let_def iterate_def example_snapshot_def)
qed

text \<open>
  Claim C6. With \<open>powerball\<close> mapped to the empty array, the query for that game
  returns the empty array. A query by game alone fails exactly when the key is absent.
\<close>

theorem powerball_empty_array_is_success:
  "(map_of history ''powerball'' = Some (JArr []) \<longrightarrow>
      get_lottery history (Some ''powerball'') None = Inr (JArr []))
   \<and> ((\<exists>e. get_lottery history (Some ''powerball'') None = Inl e)
        \<longleftrightarrow> map_of history ''powerball'' = None)"
proof -
  have "py_strip ''powerball'' = ''powerball''"
    by (rule py_strip_no_blank) (simp add: is_space_def)
  then show ?thesis
    by (auto simp: get_lottery_def not_empty_def Let_def split: option.splits)
qed

theorem powerball_empty_array_is_success_witness:
  "map_of example_snapshot ''powerball'' = Some (JArr [])
   \<and> get_lottery example_snapshot (Some ''powerball'') None = Inr (JArr [])"
  using powerball_empty_array_is_success [of example_snapshot]
  by (simp add: example_snapshot_def)

text \<open>
  Claim C7. Without parameters the response is the snapshot as stored; and the object
  that a run of the fetcher writes has the keys \<open>timestamp\<close>, \<open>powerball\<close> and
  \<open>megaMillions\<close>, no other, each once.
\<close>

theorem full_snapshot_has_three_keys:
  "get_lottery history None None = Inr (JObj history)
   \<and> (main now_iso powerball_page megamillions_page = Inr snapshot \<longrightarrow>
        map fst snapshot = [''timestamp'', ''powerball'', ''megaMillions'']
        \<and> get_lottery snapshot None None = Inr (JObj snapshot))"
  by (auto simp: get_lottery_def not_empty_def main_def split: sum.splits)

lemma example_run:
  "main ''2025-06-03T14:00:00+00:00'' (Some (example_page [good_row, early_row])) None
     = Inr example_run_snapshot"
  by code_simp

theorem full_snapshot_has_three_keys_witness:
  "main ''2025-06-03T14:00:00+00:00'' (Some (example_page [good_row, early_row])) None
     = Inr example_run_snapshot
   \<and> map fst example_run_snapshot = [''timestamp'', ''powerball'', ''megaMillions'']
   \<and> get_lottery example_run_snapshot None None = Inr (JObj example_run_snapshot)"
  using full_snapshot_has_three_keys [of example_run_snapshot "''2025-06-03T14:00:00+00:00''"
      "Some (example_page [good_row, early_row])" None example_run_snapshot] example_run
  by simp

text \<open>
  Claim C8. An empty game parameter is answered as a request without the parameter:
  with the whole snapshot, whatever its keys.
\<close>

theorem empty_game_returns_snapshot:
  "get_lottery history (Some []) date_param = Inr (JObj history)
   \<and> get_lottery history (Some []) date_param = get_lottery history None date_param"
  by (simp add: get_lottery_def not_empty_def)

text \<open>
  Claim C9. Blanks before and after the game parameter do not count in the lookup: a
  parameter made of blanks \<open>l\<close>, a key and blanks \<open>r\<close> is answered with the value of
  the key. When the key is absent, the message quotes the parameter with its blanks.
\<close>

theorem game_is_stripped_before_lookup:
  assumes "list_all is_space l" and "list_all is_space r"
    and "key \<noteq> []" and "\<not> is_space (hd key)" and "\<not> is_space (last key)"
  shows "get_lottery history (Some (l @ key @ r)) None =
     (case map_of history key of
        None \<Rightarrow>
          Inl (HTTPException 404 (''Game '' @ [CHR 0x27] @ (l @ key @ r) @ [CHR 0x27] @ '' not found''))
      | Some entries \<Rightarrow> Inr entries)"
  using assms(3)
  by (simp add: get_lottery_def not_empty_def Let_def py_strip_blanks [OF assms] split: option.splits)

theorem game_is_stripped_before_lookup_witness:
  "get_lottery example_snapshot (Some '' powerball '') None = Inr (JArr [])
   \<and> get_lottery example_snapshot (Some '' keno '') None
       = Inl (HTTPException 404 (''Game '' @ [CHR 0x27] @ '' keno '' @ [CHR 0x27] @ '' not found''))"
  using game_is_stripped_before_lookup [of "'' ''" "'' ''" "''powerball''" example_snapshot]
    game_is_stripped_before_lookup [of "'' ''" "'' ''" "''keno''" example_snapshot]
  by (simp add: example_snapshot_def is_space_def)

end
